theory Spec2Isabelle
  imports Complex_Main "HOL-Library.Char_ord" "HOL-Library.List_Lexorder"
begin

section \<open>The store: one table, read through SQL statements\<close>

text \<open>
  The serving code (database.py) reads one SQLite table, \<^verbatim>\<open>geo_metadata\<close>. A stored value
  is represented by the text that SQLite compares (\<open>None\<close> is NULL); the identifier
  \<^verbatim>\<open>object_id\<close> is an integer. A row is what \<^verbatim>\<open>dict(row)\<close> returns.
\<close>

record row =
  object_id :: int
  cells :: "(string \<times> string option) list"

record table =
  columns :: "string list"
  rows :: "row list"

definition cell :: "row \<Rightarrow> string \<Rightarrow> string option" where
  "cell r c = (case map_of (cells r) c of Some v \<Rightarrow> v | None \<Rightarrow> None)"

datatype error = OperationalError | ProgrammingError | ZeroDivisionError

text \<open>
  The WHERE clauses that database.py assembles as text:
  \<^item> \<open>LikeAny [c1, ..., cn]\<close> is \<^verbatim>\<open>c1 LIKE ? OR ... OR cn LIKE ?\<close>
    (parenthesised in \<^verbatim>\<open>search_with_filters\<close>);
  \<^item> \<open>IsIn c n\<close> is \<^verbatim>\<open>c IN (?,...,?)\<close> with \<open>n\<close> placeholders.
  A list of clauses is joined by \<^verbatim>\<open>" AND "\<close>; the empty list is \<^verbatim>\<open>1=1\<close>.
\<close>

datatype clause = LikeAny "string list" | IsIn string nat

datatype statement =
    TableInfo
  | SelectPage "clause list" "string list" int int
  | SelectCount "clause list" "string list"
  | SelectById int
  | SelectDistinct string

record world =
  geo_metadata :: "table option"
  open_conns :: nat
  log :: "statement list"

subsection \<open>SQLite's LIKE\<close>

text \<open>ASCII letters compare without case; every other character is compared as it is.\<close>

definition lower :: "char \<Rightarrow> char" where
  "lower c = (case map_of (zip ''ABCDEFGHIJKLMNOPQRSTUVWXYZ'' ''abcdefghijklmnopqrstuvwxyz'') c of
                Some l \<Rightarrow> l | None \<Rightarrow> c)"

text \<open>\<open>like pattern text\<close>: \<^verbatim>\<open>%\<close> stands for any run of characters, \<^verbatim>\<open>_\<close> for any one
  character, every other character for itself up to ASCII case; no escape character.\<close>

fun like :: "string \<Rightarrow> string \<Rightarrow> bool" where
  "like [] s = (s = [])"
| "like (p # ps) [] = (p = CHR ''%'' \<and> like ps [])"
| "like (p # ps) (c # cs) =
     (if p = CHR ''%'' then like ps (c # cs) \<or> like (p # ps) cs
      else (p = CHR ''_'' \<or> lower p = lower c) \<and> like ps cs)"

subsection \<open>Three-valued conditions\<close>

fun or3 :: "bool option \<Rightarrow> bool option \<Rightarrow> bool option" where
  "or3 (Some True) _ = Some True"
| "or3 _ (Some True) = Some True"
| "or3 (Some False) (Some False) = Some False"
| "or3 _ _ = None"

fun and3 :: "bool option \<Rightarrow> bool option \<Rightarrow> bool option" where
  "and3 (Some False) _ = Some False"
| "and3 _ (Some False) = Some False"
| "and3 (Some True) (Some True) = Some True"
| "and3 _ _ = None"

definition like3 :: "string option \<Rightarrow> string \<Rightarrow> bool option" where
  "like3 v pat = (case v of None \<Rightarrow> None | Some s \<Rightarrow> Some (like pat s))"

definition in3 :: "string option \<Rightarrow> string list \<Rightarrow> bool option" where
  "in3 v ps = (case v of None \<Rightarrow> None | Some s \<Rightarrow> Some (s \<in> set ps))"

primrec holes :: "clause \<Rightarrow> nat" where
  "holes (LikeAny cols) = length cols"
| "holes (IsIn c n) = n"

primrec eval_clause :: "row \<Rightarrow> clause \<Rightarrow> string list \<Rightarrow> bool option" where
  "eval_clause r (LikeAny cols) ps =
     foldr or3 (map (\<lambda>(c, p). like3 (cell r c) p) (zip cols ps)) (Some False)"
| "eval_clause r (IsIn c n) ps = in3 (cell r c) ps"

fun eval_where :: "row \<Rightarrow> clause list \<Rightarrow> string list \<Rightarrow> bool option" where
  "eval_where r [] ps = Some True"
| "eval_where r (c # cs) ps =
     and3 (eval_clause r c (take (holes c) ps)) (eval_where r cs (drop (holes c) ps))"

definition selected :: "clause list \<Rightarrow> string list \<Rightarrow> row \<Rightarrow> bool" where
  "selected wh ps r = (eval_where r wh ps = Some True)"

subsection \<open>Preparing and running a statement\<close>

primrec clause_ok :: "table \<Rightarrow> clause \<Rightarrow> bool" where
  "clause_ok t (LikeAny cols) = (cols \<noteq> [] \<and> list_all (\<lambda>c. c \<in> set (columns t)) cols)"
| "clause_ok t (IsIn c n) = (n \<noteq> 0 \<and> c \<in> set (columns t))"

text \<open>A statement is refused when the table is missing, when its text is malformed (an empty
  group of LIKE tests), or when it names a column the table does not have; after that, when
  the number of bound values is not the number of placeholders.\<close>

definition prepare :: "table option \<Rightarrow> string list \<Rightarrow> clause list \<Rightarrow> string list \<Rightarrow> error + table" where
  "prepare tb used wh ps =
     (case tb of
        None \<Rightarrow> Inl OperationalError
      | Some t \<Rightarrow>
          if \<not> (list_all (\<lambda>c. c \<in> set (columns t)) used \<and> list_all (clause_ok t) wh)
          then Inl OperationalError
          else if sum_list (map holes wh) \<noteq> length ps then Inl ProgrammingError
          else Inr t)"

text \<open>\<^verbatim>\<open>LIMIT ? OFFSET ?\<close>: a negative offset counts as zero, a negative limit as no limit.\<close>

definition limit_offset :: "int \<Rightarrow> int \<Rightarrow> 'a list \<Rightarrow> 'a list" where
  "limit_offset lmt ofs xs =
     (if lmt < 0 then drop (nat ofs) xs else take (nat lmt) (drop (nat ofs) xs))"

definition logged :: "statement \<Rightarrow> world \<Rightarrow> world" where
  "logged s w = w\<lparr>log := log w @ [s]\<rparr>"

definition execute_table_info :: "world \<Rightarrow> string list \<times> world" where
  "execute_table_info w =
     ((case geo_metadata w of None \<Rightarrow> [] | Some t \<Rightarrow> columns t), logged TableInfo w)"

definition execute_page ::
  "clause list \<Rightarrow> string list \<Rightarrow> int \<Rightarrow> int \<Rightarrow> world \<Rightarrow> (error + row list) \<times> world" where
  "execute_page wh ps lmt ofs w =
     ((case prepare (geo_metadata w) [''object_id''] wh ps of
         Inl e \<Rightarrow> Inl e
       | Inr t \<Rightarrow> Inr (limit_offset lmt ofs (sort_key object_id (filter (selected wh ps) (rows t))))),
      logged (SelectPage wh ps lmt ofs) w)"

definition execute_count ::
  "clause list \<Rightarrow> string list \<Rightarrow> world \<Rightarrow> (error + int) \<times> world" where
  "execute_count wh ps w =
     ((case prepare (geo_metadata w) [] wh ps of
         Inl e \<Rightarrow> Inl e
       | Inr t \<Rightarrow> Inr (int (length (filter (selected wh ps) (rows t))))),
      logged (SelectCount wh ps) w)"

definition execute_by_id :: "int \<Rightarrow> world \<Rightarrow> (error + row option) \<times> world" where
  "execute_by_id oid w =
     ((case prepare (geo_metadata w) [''object_id''] [] [] of
         Inl e \<Rightarrow> Inl e
       | Inr t \<Rightarrow> Inr (find (\<lambda>r. object_id r = oid) (rows t))),
      logged (SelectById oid) w)"

text \<open>\<^verbatim>\<open>SELECT DISTINCT c ... WHERE c IS NOT NULL AND c != '' ORDER BY c\<close>.\<close>

definition execute_distinct :: "string \<Rightarrow> world \<Rightarrow> (error + string list) \<times> world" where
  "execute_distinct col w =
     ((case prepare (geo_metadata w) [col] [] [] of
         Inl e \<Rightarrow> Inl e
       | Inr t \<Rightarrow> Inr (sort (remdups (filter (\<lambda>s. s \<noteq> [])
                          (List.map_filter (\<lambda>r. cell r col) (rows t)))))),
      logged (SelectDistinct col) w)"

section \<open>database.py\<close>

definition get_db_connection :: "world \<Rightarrow> world" where
  "get_db_connection w = w\<lparr>open_conns := Suc (open_conns w)\<rparr>"

definition conn_close :: "world \<Rightarrow> world" where
  "conn_close w = w\<lparr>open_conns := open_conns w - 1\<rparr>"

record page_result =
  results :: "row list"
  total :: int
  page :: int
  per_page :: int
  total_pages :: int

definition text_columns :: "string list \<Rightarrow> string list" where
  "text_columns cols = filter (\<lambda>col. col \<noteq> ''object_id'') cols"

definition search_term :: "string \<Rightarrow> string" where
  "search_term query = ''%'' @ query @ ''%''"

text \<open>A failing statement raises past \<^verbatim>\<open>conn.close()\<close>; the floor division of the
  returned dictionary raises on a zero page size, after the close.\<close>

definition search_entries :: "string \<Rightarrow> int \<Rightarrow> int \<Rightarrow> world \<Rightarrow> (error + page_result) \<times> world" where
  "search_entries query pg per w =
     (let w1 = get_db_connection w;
          offset = (pg - 1) * per;
          (cols, w2) = execute_table_info w1;
          tcs = text_columns cols;
          where_sql = [LikeAny tcs];
          params = replicate (length tcs) (search_term query);
          (res, w3) = execute_page where_sql params per offset w2
      in case res of
           Inl e \<Rightarrow> (Inl e, w3)
         | Inr rs \<Rightarrow>
             (let (cnt, w4) = execute_count where_sql params w3
              in case cnt of
                   Inl e \<Rightarrow> (Inl e, w4)
                 | Inr tot \<Rightarrow>
                     (if per = 0 then Inl ZeroDivisionError
                      else Inr \<lparr>results = rs, total = tot, page = pg, per_page = per,
                                total_pages = (tot + per - 1) div per\<rparr>,
                      conn_close w4)))"

definition get_all_entries :: "int \<Rightarrow> int \<Rightarrow> world \<Rightarrow> (error + page_result) \<times> world" where
  "get_all_entries pg per w =
     (let w1 = get_db_connection w;
          offset = (pg - 1) * per;
          (res, w2) = execute_page [] [] per offset w1
      in case res of
           Inl e \<Rightarrow> (Inl e, w2)
         | Inr rs \<Rightarrow>
             (let (cnt, w3) = execute_count [] [] w2
              in case cnt of
                   Inl e \<Rightarrow> (Inl e, w3)
                 | Inr tot \<Rightarrow>
                     (if per = 0 then Inl ZeroDivisionError
                      else Inr \<lparr>results = rs, total = tot, page = pg, per_page = per,
                                total_pages = (tot + per - 1) div per\<rparr>,
                      conn_close w3)))"

definition get_entry_by_id :: "int \<Rightarrow> world \<Rightarrow> (error + row option) \<times> world" where
  "get_entry_by_id oid w =
     (let w1 = get_db_connection w;
          (res, w2) = execute_by_id oid w1
      in case res of
           Inl e \<Rightarrow> (Inl e, w2)
         | Inr r \<Rightarrow> (Inr r, conn_close w2))"

record filter_options =
  organisms :: "string list"
  data_types :: "string list"
  library_strategies :: "string list"

definition get_filter_options :: "world \<Rightarrow> (error + filter_options) \<times> world" where
  "get_filter_options w =
     (let w1 = get_db_connection w;
          (r1, w2) = execute_distinct ''organism'' w1
      in case r1 of
           Inl e \<Rightarrow> (Inl e, w2)
         | Inr os \<Rightarrow>
             (let (r2, w3) = execute_distinct ''data_type'' w2
              in case r2 of
                   Inl e \<Rightarrow> (Inl e, w3)
                 | Inr ds \<Rightarrow>
                     (let (r3, w4) = execute_distinct ''library_strategy'' w3
                      in case r3 of
                           Inl e \<Rightarrow> (Inl e, w4)
                         | Inr ls \<Rightarrow>
                             (Inr \<lparr>organisms = os, data_types = ds, library_strategies = ls\<rparr>,
                              conn_close w4))))"

text \<open>\<^verbatim>\<open>if query:\<close> holds for a string that is present and not empty.\<close>

definition text_search :: "string option \<Rightarrow> world \<Rightarrow> (clause list \<times> string list) \<times> world" where
  "text_search query w =
     (case query of
        None \<Rightarrow> (([], []), w)
      | Some q \<Rightarrow>
          if q = [] then (([], []), w)
          else (let (cols, w1) = execute_table_info w;
                    tcs = text_columns cols
                in (([LikeAny tcs], replicate (length tcs) (search_term q)), w1)))"

text \<open>\<^verbatim>\<open>if key in filters and filters[key]:\<close> adds one IN clause and its values.\<close>

definition filter_group ::
  "(string \<times> string list) list \<Rightarrow> string \<Rightarrow> string \<Rightarrow> clause list \<times> string list" where
  "filter_group filters key col =
     (case map_of filters key of
        None \<Rightarrow> ([], [])
      | Some vs \<Rightarrow> if vs = [] then ([], []) else ([IsIn col (length vs)], vs))"

definition add_filters ::
  "(string \<times> string list) list option \<Rightarrow> clause list \<times> string list" where
  "add_filters filters =
     (case filters of
        None \<Rightarrow> ([], [])
      | Some fs \<Rightarrow>
          if fs = [] then ([], [])
          else (let (c1, p1) = filter_group fs ''organisms'' ''organism'';
                    (c2, p2) = filter_group fs ''data_types'' ''data_type'';
                    (c3, p3) = filter_group fs ''library_strategies'' ''library_strategy''
                in (c1 @ c2 @ c3, p1 @ p2 @ p3)))"

definition search_with_filters ::
  "string option \<Rightarrow> (string \<times> string list) list option \<Rightarrow> int \<Rightarrow> int \<Rightarrow> world
     \<Rightarrow> (error + page_result) \<times> world" where
  "search_with_filters query filters pg per w =
     (let w1 = get_db_connection w;
          offset = (pg - 1) * per;
          ((tc, tp), w2) = text_search query w1;
          (fc, fp) = add_filters filters;
          where_clauses = tc @ fc;
          params = tp @ fp;
          (res, w3) = execute_page where_clauses params per offset w2
      in case res of
           Inl e \<Rightarrow> (Inl e, w3)
         | Inr rs \<Rightarrow>
             (let (cnt, w4) = execute_count where_clauses params w3
              in case cnt of
                   Inl e \<Rightarrow> (Inl e, w4)
                 | Inr tot \<Rightarrow>
                     (if per = 0 then Inl ZeroDivisionError
                      else Inr \<lparr>results = rs, total = tot, page = pg, per_page = per,
                                total_pages = (tot + per - 1) div per\<rparr>,
                      conn_close w4)))"

section \<open>app.py\<close>

text \<open>\<^verbatim>\<open>str.strip()\<close> removes the whitespace characters at both ends.\<close>

definition isspace :: "char \<Rightarrow> bool" where
  "isspace c = ((of_char c :: nat) \<in> {9, 10, 11, 12, 13, 28, 29, 30, 31, 32, 133, 160})"

definition strip :: "string \<Rightarrow> string" where
  "strip s = rev (dropWhile isspace (rev (dropWhile isspace s)))"

text \<open>The filters dictionary of \<^verbatim>\<open>index\<close> (lines 22-31): a key for each filter parameter that
  was sent, and \<^verbatim>\<open>None\<close> in place of an empty dictionary.\<close>

definition build_filters ::
  "string list \<Rightarrow> string list \<Rightarrow> string list \<Rightarrow> (string \<times> string list) list option" where
  "build_filters selected_organisms selected_data_types selected_strategies =
     (let filters =
            (if selected_organisms \<noteq> [] then [(''organisms'', selected_organisms)] else []) @
            (if selected_data_types \<noteq> [] then [(''data_types'', selected_data_types)] else []) @
            (if selected_strategies \<noteq> [] then [(''library_strategies'', selected_strategies)] else [])
      in if filters \<noteq> [] then Some filters else None)"

text \<open>The request arguments: \<open>q_arg\<close> is the value of \<^verbatim>\<open>q\<close> when sent, \<open>page_arg\<close> the value
  of \<^verbatim>\<open>page\<close> when sent and read as an integer; the three lists are the repeated filter
  parameters. \<open>index\<close> returns what it hands to the template.\<close>

definition index ::
  "string option \<Rightarrow> int option \<Rightarrow> string list \<Rightarrow> string list \<Rightarrow> string list \<Rightarrow> world
     \<Rightarrow> (error + page_result \<times> filter_options) \<times> world" where
  "index q_arg page_arg selected_organisms selected_data_types selected_strategies w =
     (let query = strip (case q_arg of None \<Rightarrow> [] | Some s \<Rightarrow> s);
          pg = (case page_arg of None \<Rightarrow> 1 | Some n \<Rightarrow> n);
          (data, w1) = search_with_filters (Some query)
                          (build_filters selected_organisms selected_data_types selected_strategies)
                          pg 20 w
      in case data of
           Inl e \<Rightarrow> (Inl e, w1)
         | Inr d \<Rightarrow>
             (let (opts, w2) = get_filter_options w1
              in case opts of
                   Inl e \<Rightarrow> (Inl e, w2)
                 | Inr fo \<Rightarrow> (Inr (d, fo), w2)))"



definition api_search :: "string option \<Rightarrow> int option \<Rightarrow> world \<Rightarrow> (error + page_result) \<times> world" where
  "api_search q_arg page_arg w =
     (let query = strip (case q_arg of None \<Rightarrow> [] | Some s \<Rightarrow> s);
          pg = (case page_arg of None \<Rightarrow> 1 | Some n \<Rightarrow> n)
      in if query \<noteq> [] then search_entries query pg 20 w else get_all_entries pg 20 w)"

section \<open>Notions used to state the properties\<close>

text \<open>The statements every paginated operation runs after it has built its WHERE clause and
  parameters: the page query, the count query with the same clause and parameters, the close
  and the returned dictionary (database.py, lines 38-58, 65-79 and 217-237).\<close>

definition fetch_and_count ::
  "clause list \<Rightarrow> string list \<Rightarrow> int \<Rightarrow> int \<Rightarrow> world \<Rightarrow> (error + page_result) \<times> world" where
  "fetch_and_count wh ps pg per w =
     (case prepare (geo_metadata w) [''object_id''] wh ps of
        Inl e \<Rightarrow> (Inl e, logged (SelectPage wh ps per ((pg - 1) * per)) w)
      | Inr t \<Rightarrow>
          (if per = 0 then Inl ZeroDivisionError
           else Inr \<lparr>results = limit_offset per ((pg - 1) * per)
                                 (sort_key object_id (filter (selected wh ps) (rows t))),
                     total = int (length (filter (selected wh ps) (rows t))),
                     page = pg, per_page = per,
                     total_pages = (int (length (filter (selected wh ps) (rows t))) + per - 1) div per\<rparr>,
           conn_close (logged (SelectCount wh ps) (logged (SelectPage wh ps per ((pg - 1) * per)) w))))"


text \<open>Python's \<^verbatim>\<open>q in s\<close>: \<open>q\<close> occurs in \<open>s\<close> as a contiguous run.\<close>

fun contains :: "string \<Rightarrow> string \<Rightarrow> bool" where
  "contains [] q = (q = [])"
| "contains (c # cs) q = (take (length q) (c # cs) = q \<or> contains cs q)"


text \<open>The membership clause of a filter group: the column's value is one of the selected.\<close>

definition membership :: "string \<Rightarrow> string list \<Rightarrow> row \<Rightarrow> bool" where
  "membership col vs r = (case cell r col of None \<Rightarrow> False | Some s \<Rightarrow> s \<in> set vs)"



text \<open>Containment as the store compares: ASCII letters without case.\<close>

definition contains_nocase :: "string \<Rightarrow> string \<Rightarrow> bool" where
  "contains_nocase s q = contains (map lower s) (map lower q)"

definition text_contains :: "table \<Rightarrow> string \<Rightarrow> row \<Rightarrow> bool" where
  "text_contains t q r =
     list_ex (\<lambda>c. case cell r c of None \<Rightarrow> False | Some s \<Rightarrow> contains_nocase s q)
             (text_columns (columns t))"


text \<open>A store failure, as opposed to a result or an error raised after the queries.\<close>

definition store_failed :: "error + 'a \<Rightarrow> bool" where
  "store_failed res = (case res of Inl OperationalError \<Rightarrow> True | Inl ProgrammingError \<Rightarrow> True | _ \<Rightarrow> False)"

text \<open>Sample stores for the concrete cases: no table at all, and a small table stored out of
  identifier order.\<close>

definition no_table :: world where
  "no_table = \<lparr>geo_metadata = None, open_conns = 0, log = []\<rparr>"

definition row40 :: row where
  "row40 = \<lparr>object_id = 40, cells = [(''title'', Some ''placenta villi''),
     (''organism'', Some ''Human''), (''data_type'', Some ''RNA-Seq''),
     (''library_strategy'', Some ''RNA-Seq'')]\<rparr>"

definition row5 :: row where
  "row5 = \<lparr>object_id = 5, cells = [(''title'', Some ''liver abc''),
     (''organism'', Some ''Mouse''), (''data_type'', Some ''Array''),
     (''library_strategy'', None)]\<rparr>"

definition row2 :: row where
  "row2 = \<lparr>object_id = 2, cells = [(''title'', Some ''Placenta''),
     (''organism'', Some ''Human''), (''data_type'', Some ''RNA-Seq''),
     (''library_strategy'', Some ''RNA-Seq'')]\<rparr>"

definition row17 :: row where
  "row17 = \<lparr>object_id = 17, cells = [(''title'', None),
     (''organism'', Some ''Mouse''), (''data_type'', Some ''placenta DNA''),
     (''library_strategy'', Some ''WGS'')]\<rparr>"

definition sample_table :: table where
  "sample_table =
     \<lparr>columns = [''object_id'', ''title'', ''organism'', ''data_type'', ''library_strategy''],
      rows = [row40, row5, row2, row17]\<rparr>"

definition sample_world :: world where
  "sample_world = \<lparr>geo_metadata = Some sample_table, open_conns = 0, log = []\<rparr>"

text \<open>A store with a single record whose title is \<^verbatim>\<open>abc\<close>.\<close>

definition wild_row :: row where
  "wild_row = \<lparr>object_id = 1, cells = [(''title'', Some ''abc'')]\<rparr>"

definition wild_table :: table where
  "wild_table =
     \<lparr>columns = [''object_id'', ''title'', ''organism'', ''data_type'', ''library_strategy''],
      rows = [wild_row]\<rparr>"

definition wild_world :: world where
  "wild_world = \<lparr>geo_metadata = Some wild_table, open_conns = 0, log = []\<rparr>"

text \<open>The spec's scenario: 45 records, 20 per page, page 3.\<close>

definition forty_five :: world where
  "forty_five =
     \<lparr>geo_metadata = Some
        \<lparr>columns = [''object_id'', ''organism'', ''data_type'', ''library_strategy''],
         rows = map (\<lambda>i. \<lparr>object_id = i, cells = []\<rparr>) [1..45]\<rparr>,
      open_conns = 0, log = []\<rparr>"

definition page3_of_45 :: page_result where
  "page3_of_45 =
     \<lparr>results = map (\<lambda>i. \<lparr>object_id = i, cells = []\<rparr>) [41..45],
      total = 45, page = 3, per_page = 20, total_pages = 3\<rparr>"

section \<open>The operations, statement by statement\<close>

lemma geo_logged [simp]: "geo_metadata (logged s w) = geo_metadata w"
  by (simp add: logged_def)

lemma geo_conn [simp]: "geo_metadata (get_db_connection w) = geo_metadata w"
  by (simp add: get_db_connection_def)

lemma prepare_weaken:
  "prepare tb used wh ps = Inr t \<Longrightarrow> prepare tb [] wh ps = Inr t"
  by (auto simp: prepare_def split: option.splits if_splits)

lemma tail_eq:
  "(let (res, w3) = execute_page wh ps per ((pg - 1) * per) w
    in case res of
         Inl e \<Rightarrow> (Inl e, w3)
       | Inr rs \<Rightarrow>
           (let (cnt, w4) = execute_count wh ps w3
            in case cnt of
                 Inl e \<Rightarrow> (Inl e, w4)
               | Inr tot \<Rightarrow>
                   (if per = 0 then Inl ZeroDivisionError
                    else Inr \<lparr>results = rs, total = tot, page = pg, per_page = per,
                              total_pages = (tot + per - 1) div per\<rparr>,
                    conn_close w4))) = fetch_and_count wh ps pg per w"
proof (cases "prepare (geo_metadata w) [''object_id''] wh ps")
  case (Inl e)
  then show ?thesis by (simp add: execute_page_def fetch_and_count_def)
next
  case (Inr t)
  then have "prepare (geo_metadata w) [] wh ps = Inr t" by (rule prepare_weaken)
  with Inr show ?thesis by (simp add: execute_page_def execute_count_def fetch_and_count_def)
qed

lemma get_all_entries_eq:
  "get_all_entries pg per w = fetch_and_count [] [] pg per (get_db_connection w)"
  unfolding get_all_entries_def Let_def by (rule tail_eq [unfolded Let_def])

lemma search_entries_eq:
  "search_entries query pg per w =
     fetch_and_count [LikeAny (text_columns (fst (execute_table_info (get_db_connection w))))]
       (replicate (length (text_columns (fst (execute_table_info (get_db_connection w)))))
          (search_term query))
       pg per (snd (execute_table_info (get_db_connection w)))"
  unfolding search_entries_def Let_def split_beta
  by (rule tail_eq [unfolded Let_def split_beta])

lemma search_with_filters_eq:
  "search_with_filters query filters pg per w =
     fetch_and_count (fst (fst (text_search query (get_db_connection w))) @ fst (add_filters filters))
       (snd (fst (text_search query (get_db_connection w))) @ snd (add_filters filters))
       pg per (snd (text_search query (get_db_connection w)))"
  unfolding search_with_filters_def Let_def split_beta
  by (rule tail_eq [unfolded Let_def split_beta])

lemma fetch_and_count_Inr:
  assumes "fst (fetch_and_count wh ps pg per w) = Inr res"
  shows "\<exists>t. prepare (geo_metadata w) [''object_id''] wh ps = Inr t \<and> per \<noteq> 0 \<and>
             results res = limit_offset per ((pg - 1) * per)
                             (sort_key object_id (filter (selected wh ps) (rows t))) \<and>
             total res = int (length (filter (selected wh ps) (rows t))) \<and>
             page res = pg \<and> per_page res = per \<and>
             total_pages res = (total res + per - 1) div per"
  using assms by (auto simp: fetch_and_count_def split: sum.splits if_splits)

section \<open>The WHERE clause, clause by clause\<close>






lemma eval_is_in:
  "eval_clause r (IsIn c n) vs = Some True \<longleftrightarrow> membership c vs r"
  by (simp add: in3_def membership_def split: option.splits)

lemma selected_Nil [simp]: "selected [] ps r"
  by (simp add: selected_def)



subsection \<open>The filter groups\<close>







subsection \<open>The text clause\<close>


lemma text_search_geo [simp]: "geo_metadata (snd (text_search query w)) = geo_metadata w"
  by (simp add: text_search_def execute_table_info_def Let_def split: option.splits)





subsection \<open>The filtered search on a served table\<close>





section \<open>Connections, the statement log and the order of a page\<close>

lemma prepare_Inl:
  "prepare tb used wh ps = Inl e \<Longrightarrow> e = OperationalError \<or> e = ProgrammingError"
  by (auto simp: prepare_def split: option.splits if_splits)

lemma fetch_and_count_failed:
  "store_failed (fst (fetch_and_count wh ps pg per w)) \<longleftrightarrow>
   isl (prepare (geo_metadata w) [''object_id''] wh ps)"
  by (auto simp: fetch_and_count_def store_failed_def split: sum.splits dest: prepare_Inl)

lemma fetch_and_count_log:
  "log (snd (fetch_and_count wh ps pg per w)) =
     log w @ SelectPage wh ps per ((pg - 1) * per) #
       (if store_failed (fst (fetch_and_count wh ps pg per w)) then [] else [SelectCount wh ps])"
  unfolding fetch_and_count_failed
  by (simp add: fetch_and_count_def logged_def conn_close_def split: sum.splits)

lemma fetch_and_count_conns:
  "open_conns (snd (fetch_and_count wh ps pg per w)) =
     (if store_failed (fst (fetch_and_count wh ps pg per w)) then open_conns w else open_conns w - 1)"
  unfolding fetch_and_count_failed
  by (simp add: fetch_and_count_def logged_def conn_close_def split: sum.splits)

lemma fetch_and_count_sorted:
  "fst (fetch_and_count wh ps pg per w) = Inr res \<Longrightarrow> sorted (map object_id (results res))"
proof -
  assume "fst (fetch_and_count wh ps pg per w) = Inr res"
  from fetch_and_count_Inr [OF this] obtain t :: table where
    "results res = limit_offset per ((pg - 1) * per)
                             (sort_key object_id (filter (selected wh ps) (rows t)))"
    by blast
  then show ?thesis
    by (simp add: limit_offset_def take_map [symmetric] drop_map [symmetric])
qed

lemma text_search_conns [simp]: "open_conns (snd (text_search query w)) = open_conns w"
  by (simp add: text_search_def execute_table_info_def logged_def Let_def split: option.splits)

lemma text_search_log:
  "log (snd (text_search query w)) =
     log w @ (case query of None \<Rightarrow> [] | Some q \<Rightarrow> if q = [] then [] else [TableInfo])"
  by (simp add: text_search_def execute_table_info_def logged_def Let_def split: option.splits)

lemma table_info_conns [simp]: "open_conns (snd (execute_table_info w)) = open_conns w"
  by (simp add: execute_table_info_def logged_def)

lemma table_info_log [simp]: "log (snd (execute_table_info w)) = log w @ [TableInfo]"
  by (simp add: execute_table_info_def logged_def)

lemma table_info_geo [simp]: "geo_metadata (snd (execute_table_info w)) = geo_metadata w"
  by (simp add: execute_table_info_def)

lemma conn_open [simp]: "open_conns (get_db_connection w) = Suc (open_conns w)"
  by (simp add: get_db_connection_def)

lemma conn_log [simp]: "log (get_db_connection w) = log w"
  by (simp add: get_db_connection_def)

lemma search_with_filters_conns:
  "open_conns (snd (search_with_filters query filters pg per w)) =
     (if store_failed (fst (search_with_filters query filters pg per w))
      then Suc (open_conns w) else open_conns w)"
  unfolding search_with_filters_eq fetch_and_count_conns by simp

lemma search_entries_conns:
  "open_conns (snd (search_entries q pg per w)) =
     (if store_failed (fst (search_entries q pg per w)) then Suc (open_conns w) else open_conns w)"
  unfolding search_entries_eq fetch_and_count_conns by simp

lemma get_all_entries_conns:
  "open_conns (snd (get_all_entries pg per w)) =
     (if store_failed (fst (get_all_entries pg per w)) then Suc (open_conns w) else open_conns w)"
  unfolding get_all_entries_eq fetch_and_count_conns by simp

lemma get_entry_by_id_conns:
  "open_conns (snd (get_entry_by_id oid w)) =
     (if store_failed (fst (get_entry_by_id oid w)) then Suc (open_conns w) else open_conns w)"
  by (auto simp: get_entry_by_id_def execute_by_id_def store_failed_def logged_def conn_close_def
        get_db_connection_def split: sum.splits error.splits dest: prepare_Inl)

lemma execute_distinct_conns [simp]: "open_conns (snd (execute_distinct c w)) = open_conns w"
  by (simp add: execute_distinct_def logged_def)

lemma execute_distinct_failed:
  "fst (execute_distinct c w) = Inl e \<Longrightarrow> e = OperationalError \<or> e = ProgrammingError"
  by (auto simp: execute_distinct_def split: sum.splits dest: prepare_Inl)

lemma get_filter_options_conns:
  "open_conns (snd (get_filter_options w)) =
     (if store_failed (fst (get_filter_options w)) then Suc (open_conns w) else open_conns w)"
  unfolding get_filter_options_def Let_def split_beta
  by (auto simp: store_failed_def conn_close_def split: sum.splits error.splits
        dest: execute_distinct_failed)



section \<open>Page count\<close>

lemma neg_div: "0 < (b::int) \<Longrightarrow> (a + b - 1) div b = - ((- a) div b)"
proof -
  assume b: "0 < b"
  define q where "q = (- a) div b"
  define r where "r = (- a) mod b"
  have e: "- a = b * q + r" by (simp add: q_def r_def)
  have r: "0 \<le> r" "r < b" using b by (simp_all add: r_def)
  have "a + b - 1 = b * (- q) + (b - 1 - r)" using e by (simp add: algebra_simps)
  moreover have "0 \<le> b - 1 - r" "b - 1 - r < b" using r by simp_all
  ultimately have "(a + b - 1) div b = - q" by (rule int_div_pos_eq)
  then show ?thesis by (simp add: q_def)
qed

lemma ceil_div: "0 < (b::int) \<Longrightarrow> (a + b - 1) div b = \<lceil>real_of_int a / real_of_int b\<rceil>"
  by (simp add: neg_div ceiling_divide_eq_div)

lemma fetch_and_count_pages:
  assumes "0 < per" and "fst (fetch_and_count wh ps pg per w) = Inr res"
  shows "0 \<le> total res \<and> 0 < per_page res \<and>
         total_pages res = \<lceil>real_of_int (total res) / real_of_int (per_page res)\<rceil> \<and>
         (total res = 0 \<longrightarrow> total_pages res = 0)"
proof -
  from fetch_and_count_Inr [OF assms(2)] obtain t :: table where
    tot: "total res = int (length (filter (selected wh ps) (rows t)))" and
    pp: "per_page res = per" and
    tp: "total_pages res = (total res + per - 1) div per"
    by blast
  have "total_pages res = \<lceil>real_of_int (total res) / real_of_int (per_page res)\<rceil>"
    using assms(1) by (simp add: tp pp ceil_div)
  moreover have "total res = 0 \<longrightarrow> total_pages res = 0"
    using assms(1) by (simp add: tp)
  moreover have "0 \<le> total res" by (simp add: tot)
  ultimately show ?thesis using assms(1) pp by simp
qed

text \<open>
  C3. For a positive page size, the result of every paginated operation (the filtered search,
  the text search, the unfiltered listing) has a non-negative total, and its total_pages is
  the ceiling of total / per_page; it is 0 when the total is 0.
\<close>

theorem total_pages_is_ceiling:
  assumes "0 < per"
    and "fst (search_with_filters query filters pg per w) = Inr res \<or>
         fst (search_entries q pg per w) = Inr res \<or>
         fst (get_all_entries pg per w) = Inr res"
  shows "0 \<le> total res \<and> 0 < per_page res \<and>
         total_pages res = \<lceil>real_of_int (total res) / real_of_int (per_page res)\<rceil> \<and>
         (total res = 0 \<longrightarrow> total_pages res = 0)"
  using assms(2) fetch_and_count_pages [OF assms(1)]
  unfolding search_with_filters_eq search_entries_eq get_all_entries_eq
  by blast

lemma page3_of_45_run: "fst (get_all_entries 3 20 forty_five) = Inr page3_of_45"
  by code_simp

theorem total_pages_is_ceiling_witness:
  "(0::int) < 20 \<and> fst (get_all_entries 3 20 forty_five) = Inr page3_of_45 \<and>
   length (results page3_of_45) = 5 \<and> total page3_of_45 = 45 \<and> total_pages page3_of_45 = 3 \<and>
   total_pages page3_of_45 =
     \<lceil>real_of_int (total page3_of_45) / real_of_int (per_page page3_of_45)\<rceil>"
proof -
  have pos: "(0::int) < 20" by simp
  have run: "fst (search_with_filters None None 3 20 forty_five) = Inr page3_of_45 \<or>
             fst (search_entries [] 3 20 forty_five) = Inr page3_of_45 \<or>
             fst (get_all_entries 3 20 forty_five) = Inr page3_of_45"
    using page3_of_45_run by simp
  from total_pages_is_ceiling [OF pos run] page3_of_45_run show ?thesis
    by (simp add: page3_of_45_def)
qed

section \<open>The predicate of the filtered search\<close>



lemma search_entries_log:
  "log (snd (search_entries q pg per w)) =
     log w @ [TableInfo] @
       SelectPage [LikeAny (text_columns (fst (execute_table_info (get_db_connection w))))]
         (replicate (length (text_columns (fst (execute_table_info (get_db_connection w)))))
            (search_term q))
         per ((pg - 1) * per) #
       (if store_failed (fst (search_entries q pg per w)) then []
        else [SelectCount [LikeAny (text_columns (fst (execute_table_info (get_db_connection w))))]
                (replicate (length (text_columns (fst (execute_table_info (get_db_connection w)))))
                   (search_term q))])"
  unfolding search_entries_eq fetch_and_count_log by simp








section \<open>One WHERE clause for the page and the count\<close>

lemma fetch_and_count_same_where:
  "log (snd (fetch_and_count wh ps pg per w)) =
     log w @ SelectPage wh ps per ((pg - 1) * per) #
       (if store_failed (fst (fetch_and_count wh ps pg per w)) then [] else [SelectCount wh ps]) \<and>
   (\<forall>res. fst (fetch_and_count wh ps pg per w) = Inr res \<longrightarrow>
      (\<exists>t. geo_metadata w = Some t \<and>
           total res = int (length (filter (selected wh ps) (rows t))) \<and>
           results res = limit_offset per ((pg - 1) * per)
                           (sort_key object_id (filter (selected wh ps) (rows t)))))"
proof (intro conjI allI impI)
  show "log (snd (fetch_and_count wh ps pg per w)) =
     log w @ SelectPage wh ps per ((pg - 1) * per) #
       (if store_failed (fst (fetch_and_count wh ps pg per w)) then [] else [SelectCount wh ps])"
    by (rule fetch_and_count_log)
next
  fix res assume "fst (fetch_and_count wh ps pg per w) = Inr res"
  from fetch_and_count_Inr [OF this] obtain t :: table where
    p: "prepare (geo_metadata w) [''object_id''] wh ps = Inr t" and
    r: "results res = limit_offset per ((pg - 1) * per)
                             (sort_key object_id (filter (selected wh ps) (rows t)))" and
    c: "total res = int (length (filter (selected wh ps) (rows t)))"
    by blast
  from p have "geo_metadata w = Some t"
    by (auto simp: prepare_def split: option.splits if_splits)
  with r c show "\<exists>t. geo_metadata w = Some t \<and>
           total res = int (length (filter (selected wh ps) (rows t))) \<and>
           results res = limit_offset per ((pg - 1) * per)
                           (sort_key object_id (filter (selected wh ps) (rows t)))"
    by blast
qed

text \<open>
  C4. In the filtered search and in the text search, the page query and the count query are
  sent with the same WHERE clause and the same bound parameters (the count only when the page
  query did not fail), and the reported total is the number of records that satisfy the very
  clause and parameters from which the returned page was sliced.
\<close>

theorem page_and_count_share_where:
  "(\<exists>wh ps pre.
      log (snd (search_with_filters query filters pg per w)) =
        log w @ pre @ SelectPage wh ps per ((pg - 1) * per) #
          (if store_failed (fst (search_with_filters query filters pg per w)) then []
           else [SelectCount wh ps]) \<and>
      (\<forall>res. fst (search_with_filters query filters pg per w) = Inr res \<longrightarrow>
         (\<exists>t. geo_metadata w = Some t \<and>
              total res = int (length (filter (selected wh ps) (rows t))) \<and>
              results res = limit_offset per ((pg - 1) * per)
                              (sort_key object_id (filter (selected wh ps) (rows t)))))) \<and>
   (\<exists>wh ps pre.
      log (snd (search_entries q pg per w)) =
        log w @ pre @ SelectPage wh ps per ((pg - 1) * per) #
          (if store_failed (fst (search_entries q pg per w)) then [] else [SelectCount wh ps]) \<and>
      (\<forall>res. fst (search_entries q pg per w) = Inr res \<longrightarrow>
         (\<exists>t. geo_metadata w = Some t \<and>
              total res = int (length (filter (selected wh ps) (rows t))) \<and>
              results res = limit_offset per ((pg - 1) * per)
                              (sort_key object_id (filter (selected wh ps) (rows t))))))"
proof (rule conjI)
  let ?w = "snd (text_search query (get_db_connection w))"
  let ?wh = "fst (fst (text_search query (get_db_connection w))) @ fst (add_filters filters)"
  let ?ps = "snd (fst (text_search query (get_db_connection w))) @ snd (add_filters filters)"
  let ?pre = "case query of None \<Rightarrow> [] | Some q \<Rightarrow> if q = [] then [] else [TableInfo]"
  have "log ?w = log w @ ?pre" by (simp add: text_search_log)
  moreover have "geo_metadata ?w = geo_metadata w" by simp
  ultimately show "\<exists>wh ps pre.
      log (snd (search_with_filters query filters pg per w)) =
        log w @ pre @ SelectPage wh ps per ((pg - 1) * per) #
          (if store_failed (fst (search_with_filters query filters pg per w)) then []
           else [SelectCount wh ps]) \<and>
      (\<forall>res. fst (search_with_filters query filters pg per w) = Inr res \<longrightarrow>
         (\<exists>t. geo_metadata w = Some t \<and>
              total res = int (length (filter (selected wh ps) (rows t))) \<and>
              results res = limit_offset per ((pg - 1) * per)
                              (sort_key object_id (filter (selected wh ps) (rows t)))))"
    unfolding search_with_filters_eq
    using fetch_and_count_same_where [of ?wh ?ps pg per ?w]
    by (intro exI [of _ ?wh] exI [of _ ?ps] exI [of _ ?pre]) simp
next
  let ?w = "snd (execute_table_info (get_db_connection w))"
  let ?tcs = "text_columns (fst (execute_table_info (get_db_connection w)))"
  let ?wh = "[LikeAny ?tcs]"
  let ?ps = "replicate (length ?tcs) (search_term q)"
  have "log ?w = log w @ [TableInfo]" by simp
  moreover have "geo_metadata ?w = geo_metadata w" by simp
  ultimately show "\<exists>wh ps pre.
      log (snd (search_entries q pg per w)) =
        log w @ pre @ SelectPage wh ps per ((pg - 1) * per) #
          (if store_failed (fst (search_entries q pg per w)) then [] else [SelectCount wh ps]) \<and>
      (\<forall>res. fst (search_entries q pg per w) = Inr res \<longrightarrow>
         (\<exists>t. geo_metadata w = Some t \<and>
              total res = int (length (filter (selected wh ps) (rows t))) \<and>
              results res = limit_offset per ((pg - 1) * per)
                              (sort_key object_id (filter (selected wh ps) (rows t)))))"
    unfolding search_entries_eq
    using fetch_and_count_same_where [of ?wh ?ps pg per ?w]
    by (intro exI [of _ ?wh] exI [of _ ?ps] exI [of _ "[TableInfo]"]) simp
qed


section \<open>The sample search for a term\<close>

lemma run_placenta:
  "fst (search_with_filters (Some ''placenta'') None 1 20 sample_world)
     = Inr \<lparr>results = [row2, row17, row40], total = 3, page = 1, per_page = 20, total_pages = 1\<rparr>"
  by code_simp

theorem page_and_count_share_where_witness:
  "fst (search_with_filters (Some ''placenta'') None 1 20 sample_world)
     = Inr \<lparr>results = [row2, row17, row40], total = 3, page = 1, per_page = 20, total_pages = 1\<rparr> \<and>
   (\<exists>wh ps pre.
      log (snd (search_with_filters (Some ''placenta'') None 1 20 sample_world)) =
        log sample_world @ pre @ [SelectPage wh ps 20 0, SelectCount wh ps] \<and>
      3 = int (length (filter (selected wh ps) (rows sample_table))) \<and>
      [row2, row17, row40] =
        limit_offset 20 0 (sort_key object_id (filter (selected wh ps) (rows sample_table))))"
proof -
  have nf: "\<not> store_failed (fst (search_with_filters (Some ''placenta'') None 1 20 sample_world))"
    by (simp add: run_placenta store_failed_def)
  from page_and_count_share_where [of "Some ''placenta''" None 1 20 sample_world]
  obtain wh ps pre where
    l: "log (snd (search_with_filters (Some ''placenta'') None 1 20 sample_world)) =
        log sample_world @ pre @ SelectPage wh ps 20 ((1 - 1) * 20) #
          (if store_failed (fst (search_with_filters (Some ''placenta'') None 1 20 sample_world))
           then [] else [SelectCount wh ps])" and
    r: "\<forall>res. fst (search_with_filters (Some ''placenta'') None 1 20 sample_world) = Inr res \<longrightarrow>
         (\<exists>t. geo_metadata sample_world = Some t \<and>
              total res = int (length (filter (selected wh ps) (rows t))) \<and>
              results res = limit_offset 20 ((1 - 1) * 20)
                              (sort_key object_id (filter (selected wh ps) (rows t))))"
    by blast
  from r run_placenta obtain t :: table where
    "geo_metadata sample_world = Some t"
    "3 = int (length (filter (selected wh ps) (rows t)))"
    "[row2, row17, row40] = limit_offset 20 ((1 - 1) * 20)
                              (sort_key object_id (filter (selected wh ps) (rows t)))"
    by fastforce
  moreover from this(1) have "t = sample_table" by (simp add: sample_world_def)
  ultimately show ?thesis using l nf run_placenta by auto
qed

section \<open>Order of a page\<close>

text \<open>
  C6. Whatever the text term and the filter selection, the page returned by the filtered search
  and by the text search is in ascending order of the identifier; the sample store holds its
  records in the order 40, 5, 2, 17, and the term "placenta" matches 2, 17 and 40, returned in
  that order with total 3.
\<close>

theorem page_sorted_by_identifier:
  assumes "fst (search_with_filters query filters pg per w) = Inr res \<or>
           fst (search_entries q pg per w) = Inr res"
  shows "sorted (map object_id (results res))"
  using assms fetch_and_count_sorted
  unfolding search_with_filters_eq search_entries_eq by blast

theorem page_sorted_by_identifier_witness:
  "fst (search_with_filters (Some ''placenta'') None 1 20 sample_world)
     = Inr \<lparr>results = [row2, row17, row40], total = 3, page = 1, per_page = 20, total_pages = 1\<rparr> \<and>
   map object_id [row2, row17, row40] = [2, 17, 40] \<and>
   map object_id (rows sample_table) = [40, 5, 2, 17] \<and>
   sorted (map object_id [row2, row17, row40])"
  using page_sorted_by_identifier [of "Some ''placenta''" None 1 20 sample_world
      "\<lparr>results = [row2, row17, row40], total = 3, page = 1, per_page = 20, total_pages = 1\<rparr>", OF disjI1]
    run_placenta
  by (simp add: row2_def row17_def row40_def row5_def sample_table_def)

section \<open>Page numbers below 1\<close>






section \<open>Release of the connection\<close>

text \<open>
  C9, as stated, fails: when the table is missing the page query of the filtered search fails
  and the failure leaves the operation with the connection still open.
\<close>

theorem connection_left_open_counterexample:
  "open_conns no_table = 0 \<and>
   fst (search_with_filters None None 1 20 no_table) = Inl OperationalError \<and>
   open_conns (snd (search_with_filters None None 1 20 no_table)) = 1"
  by code_simp

text \<open>
  C9, amended. Every query operation (filtered search, text search, listing, lookup by
  identifier, filter options) closes its connection on every path on which no store query
  fails, including the division error raised after the queries; when a store query fails, the
  failure leaves the operation without the connection having been closed.
\<close>

theorem connection_closed_unless_store_fails:
  "open_conns (snd (search_with_filters query filters pg per w)) =
     (if store_failed (fst (search_with_filters query filters pg per w))
      then Suc (open_conns w) else open_conns w) \<and>
   open_conns (snd (search_entries q pg per w)) =
     (if store_failed (fst (search_entries q pg per w)) then Suc (open_conns w) else open_conns w) \<and>
   open_conns (snd (get_all_entries pg per w)) =
     (if store_failed (fst (get_all_entries pg per w)) then Suc (open_conns w) else open_conns w) \<and>
   open_conns (snd (get_entry_by_id oid w)) =
     (if store_failed (fst (get_entry_by_id oid w)) then Suc (open_conns w) else open_conns w) \<and>
   open_conns (snd (get_filter_options w)) =
     (if store_failed (fst (get_filter_options w)) then Suc (open_conns w) else open_conns w)"
  by (simp only: search_with_filters_conns search_entries_conns get_all_entries_conns
        get_entry_by_id_conns get_filter_options_conns simp_thms)

lemma run_lookup_17: "fst (get_entry_by_id 17 sample_world) = Inr (Some row17)"
  by code_simp

lemma run_listing_zero: "fst (get_all_entries 1 0 sample_world) = Inl ZeroDivisionError"
  by code_simp

theorem connection_closed_unless_store_fails_witness:
  "fst (get_entry_by_id 17 sample_world) = Inr (Some row17) \<and>
   open_conns (snd (get_entry_by_id 17 sample_world)) = open_conns sample_world \<and>
   fst (get_all_entries 1 0 sample_world) = Inl ZeroDivisionError \<and>
   open_conns (snd (get_all_entries 1 0 sample_world)) = open_conns sample_world"
  using connection_closed_unless_store_fails [of None None 1 0 sample_world "[]" 17]
  by (simp add: run_lookup_17 run_listing_zero store_failed_def)

section \<open>Lookup of one record\<close>











section \<open>Empty filter groups and values that no record has\<close>












section \<open>LIKE and containment\<close>









section \<open>Text search and containment\<close>






text \<open>
  C10. The term is put between two \<^verbatim>\<open>%\<close> and bound as the LIKE pattern as it is, so its own
  \<^verbatim>\<open>%\<close> and \<^verbatim>\<open>_\<close> act as wildcards: there is a term holding one of them for which both
  searches return a record although no record contains the term as a substring, with or
  without regard to letter case.
\<close>

theorem unescaped_wildcards_match_more:
  "\<exists>q. (CHR ''%'' \<in> set q \<or> CHR ''_'' \<in> set q) \<and>
        log (snd (search_entries q 1 20 wild_world)) =
          [TableInfo,
           SelectPage [LikeAny [''title'', ''organism'', ''data_type'', ''library_strategy'']]
             (replicate 4 (''%'' @ q @ ''%'')) 20 0,
           SelectCount [LikeAny [''title'', ''organism'', ''data_type'', ''library_strategy'']]
             (replicate 4 (''%'' @ q @ ''%''))] \<and>
        fst (search_entries q 1 20 wild_world) =
          Inr \<lparr>results = [wild_row], total = 1, page = 1, per_page = 20, total_pages = 1\<rparr> \<and>
        fst (search_with_filters (Some q) None 1 20 wild_world) =
          Inr \<lparr>results = [wild_row], total = 1, page = 1, per_page = 20, total_pages = 1\<rparr> \<and>
        filter (text_contains wild_table q) (rows wild_table) = [] \<and>
        filter (\<lambda>r. list_ex (\<lambda>c. case cell r c of None \<Rightarrow> False | Some s \<Rightarrow> contains s q)
                       (text_columns (columns wild_table))) (rows wild_table) = []"
  by (rule exI [of _ "''a%c''"]) code_simp


end
